theory Spec2Isabelle
  imports
    Complex_Main
    "HOL-Library.Char_ord"
    "HOL-Library.List_Lexorder"
    "HOL-Library.Product_Lexorder"
    "HOL-Library.Multiset"
begin

section \<open>Ingestion: column-name deduplication\<close>

text \<open>
  Python's \<^verbatim>\<open>str\<close> of an integer, as used by the f-string at line 17 of
  \<^verbatim>\<open>app.py\<close>: decimal digits, most significant first, with a minus sign
  for negative numbers.
\<close>

definition digit_char :: "nat \<Rightarrow> char" where
  "digit_char d = ''0123456789'' ! d"

fun digits :: "nat \<Rightarrow> string" where
  "digits n = (if n < 10 then [digit_char n] else digits (n div 10) @ [digit_char (n mod 10)])"

declare digits.simps [simp del]

definition str_int :: "int \<Rightarrow> string" where
  "str_int i = (if i < 0 then CHR ''-'' # digits (nat (- i)) else digits (nat i))"

text \<open>
  \<^verbatim>\<open>make_columns_unique\<close> (lines 11-21). The dictionary \<^verbatim>\<open>seen\<close> is a map
  from names to counters, \<^verbatim>\<open>new_cols\<close> is the list being appended to; the
  \<^verbatim>\<open>for\<close> loop is the recursion over the input list.
\<close>

fun mcu_loop :: "string list \<Rightarrow> (string \<rightharpoonup> int) \<Rightarrow> string list \<Rightarrow> string list" where
  "mcu_loop [] seen new_cols = new_cols"
| "mcu_loop (col # columns) seen new_cols =
     (case seen col of
        Some n \<Rightarrow> mcu_loop columns (seen(col \<mapsto> n + 1)) (new_cols @ [col @ ''.'' @ str_int (n + 1)])
      | None \<Rightarrow> mcu_loop columns (seen(col \<mapsto> 0)) (new_cols @ [col]))"

definition make_columns_unique :: "string list \<Rightarrow> string list" where
  "make_columns_unique columns = mcu_loop columns Map.empty []"

text \<open>
  The renaming rule in the words of the specification: the entry at position \<open>i\<close>
  keeps its name when that name has not occurred before, and the \<open>n\<close>-th repeat
  becomes \<^verbatim>\<open><name>.<n>\<close>.
\<close>

definition renamed :: "string list \<Rightarrow> nat \<Rightarrow> string" where
  "renamed columns i =
     (let col = columns ! i; n = count_list (take i columns) col
      in if n = 0 then col else col @ ''.'' @ str_int (int n))"


section \<open>The dataframe library, as far as the program uses it\<close>

text \<open>
  A scalar held by a cell is a number or a text. Numbers are exact rationals here:
  the rounding of binary floating point is outside this development. A cell is a
  scalar option, \<open>None\<close> being the library's missing value (NaN / None).
\<close>

datatype scalar = Num rat | Str string

instantiation scalar :: linorder
begin

fun less_eq_scalar :: "scalar \<Rightarrow> scalar \<Rightarrow> bool" where
  "less_eq_scalar (Num a) (Num b) = (a \<le> b)"
| "less_eq_scalar (Num a) (Str t) = True"
| "less_eq_scalar (Str s) (Num b) = False"
| "less_eq_scalar (Str s) (Str t) = (s \<le> t)"

definition less_scalar :: "scalar \<Rightarrow> scalar \<Rightarrow> bool" where
  "less_scalar a b = (a \<le> b \<and> \<not> b \<le> (a::scalar))"

instance
proof
  fix x y z :: scalar
  show "(x < y) = (x \<le> y \<and> \<not> y \<le> x)" by (simp add: less_scalar_def)
  show "x \<le> x" by (cases x) simp_all
  show "x \<le> y \<Longrightarrow> y \<le> z \<Longrightarrow> x \<le> z" by (cases x; cases y; cases z) auto
  show "x \<le> y \<Longrightarrow> y \<le> x \<Longrightarrow> x = y" by (cases x; cases y) auto
  show "x \<le> y \<or> y \<le> x" by (cases x; cases y) auto
qed

end

type_synonym cell = "scalar option"

text \<open>
  A column (a Series) has a storage type: a number kind, or anything else (object).
  \<^verbatim>\<open>select_dtypes(include="number")\<close> and \<^verbatim>\<open>select_dtypes(exclude="number")\<close>
  (lines 57-58) split the columns by it.
\<close>

datatype series = NumSeries "rat option list" | ObjSeries "string option list"

fun cells :: "series \<Rightarrow> cell list" where
  "cells (NumSeries vs) = map (map_option Num) vs"
| "cells (ObjSeries vs) = map (map_option Str) vs"

text \<open>
  The Dataset (the DataFrame \<^verbatim>\<open>df\<close>): its columns in order, each a label with its
  series. A well-formed Dataset has pairwise distinct labels and columns of one length.
\<close>

record dataset =
  cols :: "(string \<times> series) list"

definition col_names :: "dataset \<Rightarrow> string list" where
  "col_names df = map fst (cols df)"

definition nrows :: "dataset \<Rightarrow> nat" where
  "nrows df = (case cols df of [] \<Rightarrow> 0 | (_, s) # _ \<Rightarrow> length (cells s))"

definition wf_dataset :: "dataset \<Rightarrow> bool" where
  "wf_dataset df =
     (distinct (col_names df) \<and> list_all (\<lambda>(_, s). length (cells s) = nrows df) (cols df))"

definition numeric_cols :: "dataset \<Rightarrow> string list" where
  "numeric_cols df = [n. (n, NumSeries _) \<leftarrow> cols df]"

definition categorical_cols :: "dataset \<Rightarrow> (string \<times> string option list) list" where
  "categorical_cols df = [(n, vs). (n, ObjSeries vs) \<leftarrow> cols df]"

datatype error =
    KeyError string
  | ValueError string
  | IndexError
  | NotNumeric string
  | DuplicateLabels string

text \<open>\<^verbatim>\<open>df[x]\<close>: the column labelled \<open>x\<close>; a missing label raises KeyError.\<close>

definition getitem :: "dataset \<Rightarrow> string \<Rightarrow> error + series" where
  "getitem df x = (case map_of (cols df) x of None \<Rightarrow> Inl (KeyError x) | Some s \<Rightarrow> Inr s)"

text \<open>
  The numbers of a value column. The value selector (lines 114-118) offers the
  numeric columns only; an aggregation over a column of another storage type is
  not modelled and reported as \<open>NotNumeric\<close>.
\<close>

definition numbers :: "string \<Rightarrow> series \<Rightarrow> error + rat option list" where
  "numbers y s = (case s of NumSeries vs \<Rightarrow> Inr vs | ObjSeries _ \<Rightarrow> Inl (NotNumeric y))"

text \<open>The present (non-missing) entries of a list of cells, in order.\<close>

definition present :: "'a option list \<Rightarrow> 'a list" where
  "present cs = [k. Some k \<leftarrow> cs]"

text \<open>The distinct elements of a list in order of first appearance.\<close>

definition uniques :: "'a list \<Rightarrow> 'a list" where
  "uniques xs = rev (remdups (rev xs))"

text \<open>
  \<^verbatim>\<open>Series.value_counts()\<close> with its defaults: missing entries are dropped
  (\<^verbatim>\<open>dropna=True\<close>), each distinct value gets its number of occurrences, and the
  result is ordered by count, descending (\<^verbatim>\<open>sort=True\<close>), values of equal count
  staying in order of first appearance.
\<close>

definition value_counts :: "'a option list \<Rightarrow> ('a \<times> nat) list" where
  "value_counts cs =
     (let ks = present cs
      in sort_key (\<lambda>(k, n). - int n) (map (\<lambda>k. (k, count_list ks k)) (uniques ks)))"

text \<open>
  \<^verbatim>\<open>df.groupby(x)[y]\<close> with its defaults: rows whose key is missing are dropped
  (\<^verbatim>\<open>dropna=True\<close>) and the groups come in ascending order of the key
  (\<^verbatim>\<open>sort=True\<close>). \<open>group_values\<close> are the value cells of the rows of one key.
\<close>

definition group_keys :: "cell list \<Rightarrow> scalar list" where
  "group_keys ks = sort (remdups (present ks))"

definition group_values :: "cell list \<Rightarrow> rat option list \<Rightarrow> scalar \<Rightarrow> rat option list" where
  "group_values ks vs k = map snd (filter (\<lambda>(k', v). k' = Some k) (zip ks vs))"

text \<open>
  The three reductions of a group: \<^verbatim>\<open>sum\<close> adds the present entries (0 for none),
  \<^verbatim>\<open>mean\<close> is their arithmetic mean (missing when there is none), \<^verbatim>\<open>count\<close> is
  their number. A value of the result is a rational option, \<open>None\<close> being NaN.
\<close>

definition agg_sum :: "rat option list \<Rightarrow> rat option" where
  "agg_sum vs = Some (sum_list (present vs))"

definition agg_mean :: "rat option list \<Rightarrow> rat option" where
  "agg_mean vs =
     (if present vs = [] then None else Some (sum_list (present vs) / of_nat (length (present vs))))"

definition agg_count :: "rat option list \<Rightarrow> rat option" where
  "agg_count vs = Some (of_nat (length (present vs)))"

type_synonym frame = "(scalar \<times> rat option) list"

definition groupby_agg ::
  "(rat option list \<Rightarrow> rat option) \<Rightarrow> dataset \<Rightarrow> string \<Rightarrow> string \<Rightarrow> error + frame" where
  "groupby_agg f df x y =
     (case getitem df x of
        Inl e \<Rightarrow> Inl e
      | Inr sx \<Rightarrow>
          (case getitem df y of
             Inl e \<Rightarrow> Inl (KeyError (''Column not found: '' @ y))
           | Inr sy \<Rightarrow>
               (case numbers y sy of
                  Inl e \<Rightarrow> Inl e
                | Inr vs \<Rightarrow> Inr (map (\<lambda>k. (k, f (group_values (cells sx) vs k))) (group_keys (cells sx))))))"

text \<open>
  \<^verbatim>\<open>.reset_index(name="value")\<close> on a grouped or counted result turns the index
  (labelled with the column it comes from) into a column beside the new column
  \<^verbatim>\<open>value\<close>; the library refuses to insert a column under a label that exists
  already. \<^verbatim>\<open>.reset_index()\<close> on the result of \<^verbatim>\<open>value_counts\<close> does the same
  beside the column of the counts, which the library (from its version 2 on)
  labels \<^verbatim>\<open>count\<close>.
\<close>

definition reset_index_value :: "string \<Rightarrow> frame \<Rightarrow> error + frame" where
  "reset_index_value x fr =
     (if x = ''value'' then Inl (ValueError ''cannot insert value, already exists'') else Inr fr)"

definition reset_index_count :: "string \<Rightarrow> frame \<Rightarrow> error + frame" where
  "reset_index_count x fr =
     (if x = ''count'' then Inl (ValueError ''cannot insert count, already exists'') else Inr fr)"

section \<open>Chart configuration and the chart renderer\<close>

text \<open>
  One entry of \<^verbatim>\<open>st.session_state.chart_configs\<close> (lines 79-87). The chart type,
  the aggregation and the colour theme are the options of their select boxes
  (lines 98, 121, 130).
\<close>

datatype chart_type = Bar | Line | Pie | Doughnut

datatype aggregation = SumAgg | MeanAgg | CountAgg

datatype color_scheme = Plotly | Set1 | Set2 | Set3 | Dark2 | Pastel

record chart_config =
  chart_type :: chart_type
  x :: string
  y :: "string option"
  use_agg :: bool
  agg :: "aggregation option"
  top_n :: int
  color_scheme :: color_scheme

text \<open>Python's truth value of \<^verbatim>\<open>cfg["y"]\<close>: \<^verbatim>\<open>None\<close> and the empty string are false.\<close>

definition truthy :: "string option \<Rightarrow> bool" where
  "truthy v = (case v of None \<Rightarrow> False | Some s \<Rightarrow> s \<noteq> [])"

text \<open>
  \<^verbatim>\<open>df[x].value_counts()\<close> as a frame of (category, count) rows; then line 163
  for Bar/Line, \<^verbatim>\<open>.reset_index(name="value")\<close>, and line 186 for Pie/Doughnut,
  \<^verbatim>\<open>.reset_index()\<close>.
\<close>

definition counts_frame :: "dataset \<Rightarrow> string \<Rightarrow> error + frame" where
  "counts_frame df c =
     (case getitem df c of
        Inl e \<Rightarrow> Inl e
      | Inr s \<Rightarrow> Inr (map (\<lambda>(k, n). (k, Some (of_nat n))) (value_counts (cells s))))"

definition bar_counts_frame :: "dataset \<Rightarrow> string \<Rightarrow> error + frame" where
  "bar_counts_frame df c =
     (case counts_frame df c of Inl e \<Rightarrow> Inl e | Inr fr \<Rightarrow> reset_index_value c fr)"

definition pie_counts_frame :: "dataset \<Rightarrow> string \<Rightarrow> error + frame" where
  "pie_counts_frame df c =
     (case counts_frame df c of Inl e \<Rightarrow> Inl e | Inr fr \<Rightarrow> reset_index_count c fr)"

definition aggregated_frame ::
  "(rat option list \<Rightarrow> rat option) \<Rightarrow> dataset \<Rightarrow> string \<Rightarrow> string \<Rightarrow> error + frame" where
  "aggregated_frame f df c v =
     (case groupby_agg f df c v of Inl e \<Rightarrow> Inl e | Inr fr \<Rightarrow> reset_index_value c fr)"

text \<open>
  The plot frame \<^verbatim>\<open>plot_df\<close> of one configuration (lines 153-164 and 186-187): its
  (category, value) rows in order. In the frequency branches the two columns are
  then labelled \<^verbatim>\<open>[x, "value"]\<close> (lines 164, 187).
\<close>

definition plot_frame :: "dataset \<Rightarrow> chart_config \<Rightarrow> error + frame" where
  "plot_frame df cfg =
     (if chart_type cfg = Bar \<or> chart_type cfg = Line then
        (if use_agg cfg \<and> truthy (y cfg) then
           (if agg cfg = Some SumAgg then aggregated_frame agg_sum df (x cfg) (the (y cfg))
            else if agg cfg = Some MeanAgg then aggregated_frame agg_mean df (x cfg) (the (y cfg))
            else aggregated_frame agg_count df (x cfg) (the (y cfg)))
         else bar_counts_frame df (x cfg))
      else pie_counts_frame df (x cfg))"

text \<open>
  What is handed to the charting library (lines 168-200): the primitive, the frame,
  the columns bound to its axes, the hole of the pie primitive, the palette, the
  title and the height. For a Pie/Doughnut configuration whose category column is
  labelled \<^verbatim>\<open>value\<close>, line 187 gives both columns of the frame that label, and the
  pie primitive refuses the frame.
\<close>

datatype primitive = BarChart | LineChart | PieChart

record figure =
  primitive :: primitive
  data :: frame
  category :: string
  color_by :: "string option"
  markers :: bool
  hole :: rat
  palette :: color_scheme
  title :: string
  height :: nat

definition render_chart :: "dataset \<Rightarrow> nat \<Rightarrow> chart_config \<Rightarrow> error + figure" where
  "render_chart df i cfg =
     (case plot_frame df cfg of
        Inl e \<Rightarrow> Inl e
      | Inr plot_df \<Rightarrow>
          (if chart_type cfg = Bar \<or> chart_type cfg = Line then
             Inr (if chart_type cfg = Bar then
                    \<lparr>primitive = BarChart, data = plot_df, category = x cfg,
                     color_by = Some (x cfg), markers = False, hole = 0,
                     palette = color_scheme cfg,
                     title = ''Chart '' @ str_int (int i + 1), height = 500\<rparr>
                  else
                    \<lparr>primitive = LineChart, data = plot_df, category = x cfg,
                     color_by = None, markers = True, hole = 0,
                     palette = color_scheme cfg,
                     title = ''Chart '' @ str_int (int i + 1), height = 500\<rparr>)
           else if x cfg = ''value'' then Inl (DuplicateLabels ''value'')
           else
             Inr \<lparr>primitive = PieChart, data = plot_df, category = x cfg,
                  color_by = Some (x cfg), markers = False,
                  hole = (if chart_type cfg = Doughnut then 45 / 100 else 0),
                  palette = color_scheme cfg,
                  title = ''Chart '' @ str_int (int i + 1), height = 500\<rparr>))"

text \<open>
  The loop of "Generate All Charts" (lines 146-201): the charts painted so far, in
  store order, and the error that stopped the loop, if any.
\<close>

fun generate_from :: "dataset \<Rightarrow> nat \<Rightarrow> chart_config list \<Rightarrow> figure list \<times> error option" where
  "generate_from df i [] = ([], None)"
| "generate_from df i (cfg # cfgs) =
     (case render_chart df i cfg of
        Inl e \<Rightarrow> ([], Some e)
      | Inr fig \<Rightarrow> (case generate_from df (Suc i) cfgs of (figs, r) \<Rightarrow> (fig # figs, r)))"

definition generate_all_charts :: "dataset \<Rightarrow> chart_config list \<Rightarrow> figure list \<times> error option" where
  "generate_all_charts df cfgs = generate_from df 0 cfgs"

section \<open>Summary reporter: the category-frequency table\<close>

record freq_row =
  Column :: string
  Category :: string
  Count :: int

text \<open>
  Lines 212-221: for each categorical column, the first five rows of its
  \<^verbatim>\<open>value_counts\<close>. The values of such a column are texts, on which \<^verbatim>\<open>str\<close> is
  the identity.
\<close>

definition column_freq_rows :: "string \<times> string option list \<Rightarrow> freq_row list" where
  "column_freq_rows c =
     map (\<lambda>(category, count). \<lparr>Column = fst c, Category = category, Count = int count\<rparr>)
       (take 5 (value_counts (snd c)))"

definition freq_rows :: "dataset \<Rightarrow> freq_row list" where
  "freq_rows df = concat (map column_freq_rows (categorical_cols df))"

text \<open>
  Lines 223-229: \<^verbatim>\<open>pd.DataFrame(freq_rows)\<close> has the columns of its rows, none when
  there is no row; \<^verbatim>\<open>sort_values(by=["Column", "Count"], ascending=[True, False])\<close>
  raises KeyError for a column that the frame does not have, and otherwise sorts
  (stably) by Column ascending, then Count descending.
\<close>

definition sort_values_column_count :: "freq_row list \<Rightarrow> error + freq_row list" where
  "sort_values_column_count rows =
     (if rows = [] then Inl (KeyError ''Column'')
      else Inr (sort_key (\<lambda>r. (Column r, - Count r)) rows))"

definition freq_table :: "dataset \<Rightarrow> error + freq_row list" where
  "freq_table df = sort_values_column_count (freq_rows df)"

section \<open>Query matcher\<close>

text \<open>
  \<^verbatim>\<open>query.lower()\<close> on the bytes of the query: the letters A-Z become a-z. (A
  character outside ASCII never lowers to one of the letters of the keywords.)
\<close>

definition lower_char :: "char \<Rightarrow> char" where
  "lower_char c =
     (case map_of (zip ''ABCDEFGHIJKLMNOPQRSTUVWXYZ'' ''abcdefghijklmnopqrstuvwxyz'') c of
        Some l \<Rightarrow> l
      | None \<Rightarrow> c)"

definition lower :: "string \<Rightarrow> string" where
  "lower s = map lower_char s"

text \<open>Python's \<^verbatim>\<open>needle in haystack\<close> on strings: contiguous containment.\<close>

fun starts_with :: "string \<Rightarrow> string \<Rightarrow> bool" where
  "starts_with [] h = True"
| "starts_with (a # as) [] = False"
| "starts_with (a # as) (b # bs) = (a = b \<and> starts_with as bs)"

fun contains :: "string \<Rightarrow> string \<Rightarrow> bool" where
  "contains n [] = (n = [])"
| "contains n (c # cs) = (starts_with n (c # cs) \<or> contains n cs)"

text \<open>What the query section shows: nothing, one of the two answers, or the notice.\<close>

datatype response = NoOutput | BestBrand scalar | MostCars scalar | NeedsAI

text \<open>
  \<^verbatim>\<open>sort_values(ascending=False)\<close> on the grouped means: descending, NaN last, rows
  of equal value in their previous order. \<^verbatim>\<open>ans.index[0]\<close> raises IndexError on an
  empty result.
\<close>

definition sort_desc :: "frame \<Rightarrow> frame" where
  "sort_desc fr =
     sort_key (\<lambda>(k, v). - the v) (filter (\<lambda>(k, v). v \<noteq> None) fr) @ filter (\<lambda>(k, v). v = None) fr"

definition index0 :: "('k \<times> 'a) list \<Rightarrow> error + 'k" where
  "index0 fr = (case fr of [] \<Rightarrow> Inl IndexError | (k, _) # _ \<Rightarrow> Inr k)"

definition highest_price :: "dataset \<Rightarrow> error + response" where
  "highest_price df =
     (case groupby_agg agg_mean df ''make'' ''price'' of
        Inl e \<Rightarrow> Inl e
      | Inr means \<Rightarrow>
          (case index0 (take 1 (sort_desc means)) of Inl e \<Rightarrow> Inl e | Inr k \<Rightarrow> Inr (BestBrand k)))"

definition most_cars :: "dataset \<Rightarrow> error + response" where
  "most_cars df =
     (case getitem df ''make'' of
        Inl e \<Rightarrow> Inl e
      | Inr s \<Rightarrow>
          (case index0 (take 1 (value_counts (cells s))) of
             Inl e \<Rightarrow> Inl e
           | Inr k \<Rightarrow> Inr (MostCars k)))"

definition highest_price_cond :: "dataset \<Rightarrow> string \<Rightarrow> bool" where
  "highest_price_cond df q =
     (contains ''highest'' q \<and> contains ''price'' q \<and> ''make'' \<in> set (col_names df))"

definition most_cars_cond :: "dataset \<Rightarrow> string \<Rightarrow> bool" where
  "most_cars_cond df q =
     (contains ''most'' q \<and> contains ''cars'' q \<and> ''make'' \<in> set (col_names df))"

definition answer_query :: "dataset \<Rightarrow> string \<Rightarrow> error + response" where
  "answer_query df query =
     (if query = [] then Inr NoOutput
      else
        (let q = lower query
         in if highest_price_cond df q then highest_price df
            else if most_cars_cond df q then most_cars df
            else Inr NeedsAI))"

text \<open>
  The same dispatch with the two keyword branches in the other order (not in the
  source): the comparison object for the remark that branch order does not matter.
\<close>

definition answer_query_swapped :: "dataset \<Rightarrow> string \<Rightarrow> error + response" where
  "answer_query_swapped df query =
     (if query = [] then Inr NoOutput
      else
        (let q = lower query
         in if most_cars_cond df q then most_cars df
            else if highest_price_cond df q then highest_price df
            else Inr NeedsAI))"

section \<open>Example data\<close>

text \<open>
  The Dataset of the specification's examples: \<^verbatim>\<open>make = [A, A, B]\<close>,
  \<^verbatim>\<open>price = [10, 20, 30]\<close>, and a chart configuration as "Add Chart" creates it
  (lines 79-87) for this Dataset.
\<close>

definition cars :: dataset where
  "cars = \<lparr>cols = [(''make'', ObjSeries [Some ''A'', Some ''A'', Some ''B'']),
                    (''price'', NumSeries [Some 10, Some 20, Some 30])]\<rparr>"

definition default_config :: chart_config where
  "default_config =
     \<lparr>chart_type = Bar, x = ''make'', y = None, use_agg = False, agg = None,
      top_n = 15, color_scheme = Plotly\<rparr>"

text \<open>The same Dataset with one more row, whose \<^verbatim>\<open>make\<close> is missing.\<close>

definition cars_missing_make :: dataset where
  "cars_missing_make =
     \<lparr>cols = [(''make'', ObjSeries [Some ''A'', None, Some ''A'', Some ''B'']),
              (''price'', NumSeries [Some 10, Some 15, Some 20, Some 30])]\<rparr>"

text \<open>The sum of the values of a plot frame (a missing value counts as nothing).\<close>

definition total :: "frame \<Rightarrow> rat" where
  "total fr = sum_list (map (\<lambda>(k, v). case v of None \<Rightarrow> 0 | Some r \<Rightarrow> r) fr)"

text \<open>
  A Dataset whose category column is labelled \<^verbatim>\<open>value\<close>, a Dataset with numeric
  columns only, and a configuration with aggregation enabled.
\<close>

definition value_prices :: dataset where
  "value_prices =
     \<lparr>cols = [(''value'', ObjSeries [Some ''A'', Some ''A'', Some ''B'']),
              (''price'', NumSeries [Some 10, Some 20, Some 30])]\<rparr>"

definition prices_only :: dataset where
  "prices_only = \<lparr>cols = [(''price'', NumSeries [Some 10, Some 20, Some 30])]\<rparr>"

definition sum_config :: chart_config where
  "sum_config =
     \<lparr>chart_type = Bar, x = ''make'', y = Some ''price'', use_agg = True, agg = Some SumAgg,
      top_n = 15, color_scheme = Plotly\<rparr>"


section \<open>Properties of the column-name deduplication\<close>

lemma renamed_at_length:
  "renamed (pre @ c # rest) (length pre) =
     (if count_list pre c = 0 then c else c @ ''.'' @ str_int (int (count_list pre c)))"
  by (simp add: renamed_def Let_def)

text \<open>
  The loop invariant: after the names \<open>pre\<close>, the dictionary holds for each name
  seen its number of occurrences minus one, and nothing else.
\<close>

lemma mcu_loop_renamed:
  assumes "\<And>c. seen c = (if c \<in> set pre then Some (int (count_list pre c) - 1) else None)"
  shows "mcu_loop ys seen acc = acc @ map (\<lambda>i. renamed (pre @ ys) (length pre + i)) [0..<length ys]"
  using assms
proof (induction ys arbitrary: pre seen acc)
  case Nil
  then show ?case by simp
next
  case (Cons c ys)
  let ?pre = "pre @ [c]"
  have tail: "map (\<lambda>i. renamed (pre @ c # ys) (length pre + i)) [0..<length (c # ys)] =
      renamed (pre @ c # ys) (length pre) #
      map (\<lambda>i. renamed (?pre @ ys) (length ?pre + i)) [0..<length ys]"
    by (simp add: map_upt_Suc del: upt_Suc)
  show ?case
  proof (cases "c \<in> set pre")
    case True
    then have pos: "count_list pre c \<noteq> 0" by (simp add: count_list_0_iff)
    have sc: "seen c = Some (int (count_list pre c) - 1)" using Cons.prems True by simp
    let ?seen = "seen(c \<mapsto> int (count_list pre c) - 1 + 1)"
    let ?name = "c @ ''.'' @ str_int (int (count_list pre c) - 1 + 1)"
    have inv: "\<And>d. ?seen d = (if d \<in> set ?pre then Some (int (count_list ?pre d) - 1) else None)"
      using Cons.prems by auto
    have "mcu_loop (c # ys) seen acc = mcu_loop ys ?seen (acc @ [?name])"
      by (simp add: sc)
    also have "\<dots> = (acc @ [?name]) @ map (\<lambda>i. renamed (?pre @ ys) (length ?pre + i)) [0..<length ys]"
      by (rule Cons.IH [OF inv])
    also have "\<dots> = acc @ map (\<lambda>i. renamed (pre @ c # ys) (length pre + i)) [0..<length (c # ys)]"
      unfolding tail renamed_at_length using pos by simp
    finally show ?thesis .
  next
    case False
    then have zero: "count_list pre c = 0" by (simp add: count_list_0_iff)
    have sc: "seen c = None" using Cons.prems False by simp
    let ?seen = "seen(c \<mapsto> 0)"
    have inv: "\<And>d. ?seen d = (if d \<in> set ?pre then Some (int (count_list ?pre d) - 1) else None)"
      using Cons.prems zero by auto
    have "mcu_loop (c # ys) seen acc = mcu_loop ys ?seen (acc @ [c])"
      by (simp add: sc)
    also have "\<dots> = (acc @ [c]) @ map (\<lambda>i. renamed (?pre @ ys) (length ?pre + i)) [0..<length ys]"
      by (rule Cons.IH [OF inv])
    also have "\<dots> = acc @ map (\<lambda>i. renamed (pre @ c # ys) (length pre + i)) [0..<length (c # ys)]"
      unfolding tail renamed_at_length using zero by simp
    finally show ?thesis .
  qed
qed

lemma make_columns_unique_renamed:
  "make_columns_unique names = map (renamed names) [0..<length names]"
  using mcu_loop_renamed [of Map.empty "[]" names "[]"]
  by (simp add: make_columns_unique_def)





















text \<open>
  Claim C2. For every list of column names, \<^verbatim>\<open>make_columns_unique\<close> returns a list
  of the same length whose entry at each position is the input name itself when
  the name has not occurred before, and \<^verbatim>\<open><name>.<n>\<close> when it is the \<open>n\<close>-th
  repeat (the name has occurred \<open>n \<ge> 1\<close> times before); for \<^verbatim>\<open>["a", "a", "a"]\<close>
  the result is \<^verbatim>\<open>["a", "a.1", "a.2"]\<close>.
\<close>

theorem make_columns_unique_spec:
  "make_columns_unique names =
     map (\<lambda>i. if count_list (take i names) (names ! i) = 0 then names ! i
               else names ! i @ ''.'' @ str_int (int (count_list (take i names) (names ! i))))
       [0..<length names]
   \<and> make_columns_unique [''a'', ''a'', ''a''] = [''a'', ''a.1'', ''a.2'']"
proof
  show "make_columns_unique names =
     map (\<lambda>i. if count_list (take i names) (names ! i) = 0 then names ! i
               else names ! i @ ''.'' @ str_int (int (count_list (take i names) (names ! i))))
       [0..<length names]"
    by (simp add: make_columns_unique_renamed renamed_def Let_def)
  show "make_columns_unique [''a'', ''a'', ''a''] = [''a'', ''a.1'', ''a.2'']"
    by (simp add: make_columns_unique_def str_int_def digits.simps digit_char_def)
qed

theorem make_columns_unique_spec_witness:
  "make_columns_unique [''id'', ''x'', ''id'', ''x'', ''id''] = [''id'', ''x'', ''id.1'', ''x.1'', ''id.2'']"
proof -
  have u: "[0..<5] = [0, 1, 2, 3, 4]"
    by (simp add: upt_rec)
  show ?thesis
    using make_columns_unique_spec [of "[''id'', ''x'', ''id'', ''x'', ''id'']"]
    by (simp add: u str_int_def digits.simps digit_char_def)
qed

section \<open>The top-N setting\<close>

lemma plot_frame_top_n: "plot_frame df (cfg\<lparr>top_n := n\<rparr>) = plot_frame df cfg"
  by (simp add: plot_frame_def)

lemma render_chart_top_n: "render_chart df i (cfg\<lparr>top_n := n\<rparr>) = render_chart df i cfg"
  by (simp add: render_chart_def plot_frame_top_n split: sum.split)

lemma generate_from_top_n:
  "generate_from df i (map (\<lambda>c. c\<lparr>top_n := f c\<rparr>) cfgs) = generate_from df i cfgs"
  by (induction cfgs arbitrary: i) (simp_all add: render_chart_top_n split: sum.split)

text \<open>
  Claim C5. Two chart configurations that differ only in \<^verbatim>\<open>top_n\<close> give the same
  plot frame and the same chart (or the same error), and two stores that differ
  only in the \<^verbatim>\<open>top_n\<close> fields of their entries give the same output of
  "Generate All Charts": \<^verbatim>\<open>top_n\<close> is never read by the renderer.
\<close>

theorem top_n_has_no_effect:
  "plot_frame df (cfg\<lparr>top_n := n\<rparr>) = plot_frame df cfg
   \<and> render_chart df i (cfg\<lparr>top_n := n\<rparr>) = render_chart df i cfg
   \<and> generate_all_charts df (map (\<lambda>c. c\<lparr>top_n := f c\<rparr>) cfgs) = generate_all_charts df cfgs"
  by (simp add: plot_frame_top_n render_chart_top_n generate_from_top_n generate_all_charts_def)

theorem top_n_has_no_effect_witness:
  "plot_frame cars (default_config\<lparr>top_n := 5\<rparr>) = plot_frame cars default_config
   \<and> render_chart cars 0 (default_config\<lparr>top_n := 5\<rparr>) = render_chart cars 0 default_config
   \<and> generate_all_charts cars
        (map (\<lambda>c. c\<lparr>top_n := 30\<rparr>) [default_config, default_config\<lparr>chart_type := Pie\<rparr>]) =
      generate_all_charts cars [default_config, default_config\<lparr>chart_type := Pie\<rparr>]"
  by (rule top_n_has_no_effect [where df = cars and cfg = default_config and n = 5 and i = 0
        and f = "\<lambda>c. 30" and cfgs = "[default_config, default_config\<lparr>chart_type := Pie\<rparr>]"])

section \<open>Pie and doughnut charts\<close>






section \<open>The query matcher\<close>

lemma contains_Nil: "contains (c # n) [] = False"
  by simp

lemma getitem_present:
  "c \<in> set (col_names df) \<Longrightarrow> \<exists>s. getitem df c = Inr s \<and> (c, s) \<in> set (cols df)"
proof -
  assume "c \<in> set (col_names df)"
  then have "map_of (cols df) c \<noteq> None"
    by (simp add: col_names_def map_of_eq_None_iff)
  then obtain s where "map_of (cols df) c = Some s" by blast
  then show ?thesis
    by (auto simp: getitem_def dest: map_of_SomeD)
qed

lemma getitem_absent: "c \<notin> set (col_names df) \<Longrightarrow> getitem df c = Inl (KeyError c)"
  by (simp add: getitem_def col_names_def map_of_eq_None_iff [THEN iffD2])

text \<open>
  Claim C10. The guard of the first query branch tests the keywords and the
  \<^verbatim>\<open>make\<close> column only. On a Dataset with a \<^verbatim>\<open>make\<close> column and no \<^verbatim>\<open>price\<close>
  column, a query whose lower-cased text contains \<^verbatim>\<open>highest\<close> and \<^verbatim>\<open>price\<close>
  enters the branch, and the selection of \<^verbatim>\<open>price\<close> from the grouped frame raises
  KeyError; the notice of the fallback is not reached.
\<close>

theorem highest_price_without_price_column:
  assumes "''make'' \<in> set (col_names df)"
    and "''price'' \<notin> set (col_names df)"
    and "contains ''highest'' (lower query)"
    and "contains ''price'' (lower query)"
  shows "answer_query df query = Inl (KeyError ''Column not found: price'')"
proof -
  have "query \<noteq> []"
    using assms(3) by (auto simp: lower_def)
  moreover have "highest_price_cond df (lower query)"
    using assms by (simp add: highest_price_cond_def)
  moreover obtain s where "getitem df ''make'' = Inr s"
    using getitem_present [OF assms(1)] by blast
  moreover have "getitem df ''price'' = Inl (KeyError ''price'')"
    using assms(2) by (rule getitem_absent)
  ultimately show ?thesis
    by (simp add: answer_query_def highest_price_def groupby_agg_def)
qed

theorem highest_price_without_price_column_witness:
  "answer_query \<lparr>cols = [(''make'', ObjSeries [Some ''A'', Some ''B''])]\<rparr> ''Highest price?''
     = Inl (KeyError ''Column not found: price'')
   \<and> answer_query \<lparr>cols = [(''make'', ObjSeries [Some ''A'', Some ''B''])]\<rparr> ''Highest price?''
     \<noteq> Inr NeedsAI"
proof -
  let ?df = "\<lparr>cols = [(''make'', ObjSeries [Some ''A'', Some ''B''])]\<rparr>"
  have "''make'' \<in> set (col_names ?df)" "''price'' \<notin> set (col_names ?df)"
    by (simp_all add: col_names_def)
  moreover have "contains ''highest'' (lower ''Highest price?'')"
    "contains ''price'' (lower ''Highest price?'')"
    by (simp_all add: lower_def lower_char_def)
  ultimately have "answer_query ?df ''Highest price?'' = Inl (KeyError ''Column not found: price'')"
    by (rule highest_price_without_price_column)
  then show ?thesis by simp
qed

section \<open>Frequency counts\<close>

lemma set_uniques: "set (uniques xs) = set xs"
  by (simp add: uniques_def)

lemma distinct_uniques: "distinct (uniques xs)"
  by (simp add: uniques_def)

lemma mset_value_counts:
  "mset (value_counts cs) = mset (map (\<lambda>k. (k, count_list (present cs) k)) (uniques (present cs)))"
  by (simp add: value_counts_def Let_def)

lemma set_value_counts:
  "set (value_counts cs) = (\<lambda>k. (k, count_list (present cs) k)) ` set (present cs)"
  by (simp add: value_counts_def Let_def set_uniques)

lemma keys_value_counts: "set (map fst (value_counts cs)) = set (present cs)"
  by (force simp: set_value_counts)

lemma distinct_value_counts: "distinct (map fst (value_counts cs))"
proof -
  have "mset (map fst (value_counts cs)) = mset (uniques (present cs))"
    by (simp add: mset_value_counts multiset.map_comp comp_def)
  then show ?thesis
    by (metis distinct_uniques mset_eq_imp_distinct_iff)
qed

lemma count_value_counts:
  "(k, n) \<in> set (value_counts cs) \<Longrightarrow> n = count_list (present cs) k"
  by (auto simp: set_value_counts)

lemma sum_value_counts: "sum_list (map snd (value_counts cs)) = length (present cs)"
proof -
  let ?ks = "present cs"
  have "mset (map snd (value_counts cs)) = mset (map (count_list ?ks) (uniques ?ks))"
    by (simp add: mset_value_counts multiset.map_comp comp_def)
  then have "sum_list (map snd (value_counts cs)) = sum_list (map (count_list ?ks) (uniques ?ks))"
    by (metis sum_mset_sum_list)
  also have "\<dots> = sum (count_list ?ks) (set ?ks)"
    by (simp add: sum_list_distinct_conv_sum_set distinct_uniques set_uniques)
  also have "\<dots> = length ?ks"
    by (rule sum_count_set) simp_all
  finally show ?thesis .
qed

lemma sorted_value_counts: "sorted (map (\<lambda>(k, n). - int n) (value_counts cs))"
  by (simp add: value_counts_def Let_def)

lemma length_present: "length (present cs) + count_list cs None = length cs"
  by (induction cs) (auto simp: present_def)

lemma present_no_missing: "None \<notin> set cs \<Longrightarrow> length (present cs) = length cs"
  using length_present [of cs] by (simp add: count_list_0_iff)

lemma wf_column_length:
  assumes "wf_dataset df" and "getitem df c = Inr s"
  shows "length (cells s) = nrows df"
proof -
  from assms(2) have "map_of (cols df) c = Some s"
    by (simp add: getitem_def split: option.splits)
  then have "(c, s) \<in> set (cols df)" by (rule map_of_SomeD)
  with assms(1) show ?thesis
    by (auto simp: wf_dataset_def list_all_iff)
qed

lemma count_present: "count_list (present cs) k = count_list cs (Some k)"
  by (induction cs) (auto simp: present_def)

lemma total_counts:
  "total (map (\<lambda>(k, n). (k, Some (of_nat n))) vc) = of_nat (sum_list (map snd vc))"
  by (induction vc) (auto simp: total_def)

lemma plot_frame_counts:
  assumes "chart_type cfg = Bar \<or> chart_type cfg = Line" and "\<not> use_agg cfg"
    and "x cfg \<noteq> ''value''" and "getitem df (x cfg) = Inr s"
  shows "plot_frame df cfg = Inr (map (\<lambda>(k, n). (k, Some (of_nat n))) (value_counts (cells s)))"
  using assms
  by (simp add: plot_frame_def bar_counts_frame_def counts_frame_def reset_index_value_def)

text \<open>
  Claim C4, as the code has it. For a Bar/Line configuration with aggregation
  disabled, on a well-formed Dataset that has the category column, and with a
  category column that is not labelled \<^verbatim>\<open>value\<close>, the plot frame is the
  \<^verbatim>\<open>value_counts\<close> of that column: one row for each distinct value that is not
  missing, with its number of occurrences in the column. The counts add up to the
  number of entries that are not missing, that is, to the row count minus the
  number of missing entries of the column; they add up to the row count when the
  column has no missing entry.
\<close>

theorem frequency_fallback:
  assumes "chart_type cfg = Bar \<or> chart_type cfg = Line" and "\<not> use_agg cfg"
    and "wf_dataset df" and "x cfg \<noteq> ''value''" and "getitem df (x cfg) = Inr s"
  shows "plot_frame df cfg = Inr (map (\<lambda>(k, n). (k, Some (of_nat n))) (value_counts (cells s)))
    \<and> distinct (map fst (value_counts (cells s)))
    \<and> set (map fst (value_counts (cells s))) = {k. Some k \<in> set (cells s)}
    \<and> map snd (value_counts (cells s)) =
        map (\<lambda>k. count_list (cells s) (Some k)) (map fst (value_counts (cells s)))
    \<and> sum_list (map snd (value_counts (cells s))) + count_list (cells s) None = nrows df
    \<and> (if None \<in> set (cells s) then sum_list (map snd (value_counts (cells s))) < nrows df
        else sum_list (map snd (value_counts (cells s))) = nrows df)"
proof -
  let ?cs = "cells s" and ?vc = "value_counts (cells s)"
  have len: "length ?cs = nrows df"
    using assms(3,5) by (rule wf_column_length)
  have 1: "plot_frame df cfg = Inr (map (\<lambda>(k, n). (k, Some (of_nat n))) ?vc)"
    using assms(1,2,4,5) by (rule plot_frame_counts)
  have 2: "distinct (map fst ?vc)"
    by (rule distinct_value_counts)
  have 3: "set (map fst ?vc) = {k. Some k \<in> set ?cs}"
    unfolding keys_value_counts by (auto simp: present_def)
  have 4: "map snd ?vc = map (\<lambda>k. count_list ?cs (Some k)) (map fst ?vc)"
    by (auto simp: count_present [symmetric] dest: count_value_counts)
  have 5: "sum_list (map snd ?vc) + count_list ?cs None = nrows df"
    by (simp add: sum_value_counts length_present len)
  have "0 < count_list ?cs None" if "None \<in> set ?cs"
    using that count_list_0_iff [of ?cs None] by linarith
  moreover have "count_list ?cs None = 0" if "None \<notin> set ?cs"
    using that by (simp add: count_list_0_iff)
  ultimately have 6: "if None \<in> set ?cs then sum_list (map snd ?vc) < nrows df
        else sum_list (map snd ?vc) = nrows df"
    using 5 by (cases "None \<in> set ?cs") force+
  from 1 2 3 4 5 6 show ?thesis by blast
qed

theorem frequency_fallback_witness:
  "plot_frame cars_missing_make default_config = Inr [(Str ''A'', Some 2), (Str ''B'', Some 1)]
   \<and> sum_list (map snd (value_counts (cells (ObjSeries [Some ''A'', None, Some ''A'', Some ''B''])))) + 1
       = nrows cars_missing_make"
proof -
  have a: "chart_type default_config = Bar \<or> chart_type default_config = Line"
    and b: "\<not> use_agg default_config"
    and v: "x default_config \<noteq> ''value''"
    by (simp_all add: default_config_def)
  have c: "wf_dataset cars_missing_make"
    by (simp add: wf_dataset_def cars_missing_make_def col_names_def nrows_def)
  have d: "getitem cars_missing_make (x default_config)
      = Inr (ObjSeries [Some ''A'', None, Some ''A'', Some ''B''])"
    by (simp add: getitem_def cars_missing_make_def default_config_def)
  have e: "value_counts [Some (Str ''A''), None, Some (Str ''A''), Some (Str ''B'')]
      = [(Str ''A'', 2), (Str ''B'', 1)]"
    by (simp add: value_counts_def present_def uniques_def)
  from frequency_fallback [OF a b c v d] show ?thesis
    by (simp add: e)
qed

text \<open>
  Claim C4, as stated, fails on a column with a missing entry: \<^verbatim>\<open>value_counts\<close>
  drops missing entries, so the counts of \<^verbatim>\<open>make = [A, missing, A, B]\<close> add up
  to 3 on a Dataset of 4 rows.
\<close>

theorem frequency_counts_row_count_counterexample:
  "wf_dataset cars_missing_make
   \<and> chart_type default_config = Bar \<and> use_agg default_config = False
   \<and> x default_config \<noteq> ''value''
   \<and> plot_frame cars_missing_make default_config = Inr [(Str ''A'', Some 2), (Str ''B'', Some 1)]
   \<and> total [(Str ''A'', Some 2), (Str ''B'', Some 1)] = 3
   \<and> nrows cars_missing_make = 4"
  by (simp add: wf_dataset_def cars_missing_make_def col_names_def nrows_def default_config_def
      plot_frame_def bar_counts_frame_def counts_frame_def reset_index_value_def getitem_def
      value_counts_def present_def uniques_def total_def)

section \<open>Order of the query branches\<close>

lemma highest_price_cond_nonempty: "highest_price_cond df (lower query) \<Longrightarrow> query \<noteq> []"
  by (auto simp: highest_price_cond_def lower_def)

lemma most_cars_cond_nonempty: "most_cars_cond df (lower query) \<Longrightarrow> query \<noteq> []"
  by (auto simp: most_cars_cond_def lower_def)

text \<open>
  Claim C7, as the code has it. At most one of the two keyword branches is taken,
  the first whose condition holds: the highest/price branch whenever its condition
  holds, the most/cars branch when only its own condition holds. The two
  conditions are not exclusive (see the counterexample); exchanging the two
  branches leaves the result unchanged for every query on which the conditions do
  not hold together.
\<close>

theorem first_matching_branch_wins:
  "(highest_price_cond df (lower query) \<longrightarrow> answer_query df query = highest_price df)
   \<and> (\<not> highest_price_cond df (lower query) \<and> most_cars_cond df (lower query)
        \<longrightarrow> answer_query df query = most_cars df)
   \<and> (\<not> (highest_price_cond df (lower query) \<and> most_cars_cond df (lower query))
        \<longrightarrow> answer_query_swapped df query = answer_query df query)"
  using highest_price_cond_nonempty [of df query] most_cars_cond_nonempty [of df query]
  by (auto simp: answer_query_def answer_query_swapped_def Let_def)

theorem first_matching_branch_wins_witness:
  "highest_price_cond cars (lower ''Highest price?'')
   \<and> answer_query cars ''Highest price?'' = highest_price cars
   \<and> \<not> highest_price_cond cars (lower ''Most cars?'')
   \<and> most_cars_cond cars (lower ''Most cars?'')
   \<and> answer_query cars ''Most cars?'' = most_cars cars
   \<and> answer_query_swapped cars ''Most cars?'' = answer_query cars ''Most cars?''"
proof -
  have a: "highest_price_cond cars (lower ''Highest price?'')"
    by (simp add: highest_price_cond_def lower_def lower_char_def cars_def col_names_def)
  have b: "\<not> highest_price_cond cars (lower ''Most cars?'')"
    by (simp add: highest_price_cond_def lower_def lower_char_def)
  have c: "most_cars_cond cars (lower ''Most cars?'')"
    by (simp add: most_cars_cond_def lower_def lower_char_def cars_def col_names_def)
  from first_matching_branch_wins [of cars "''Highest price?''"]
    first_matching_branch_wins [of cars "''Most cars?''"] a b c
  show ?thesis by blast
qed

text \<open>
  Claim C7, as stated, fails: the lower-cased query \<^verbatim>\<open>highest price, most cars\<close>
  satisfies both conditions on a Dataset with a \<^verbatim>\<open>make\<close> column, and the order of
  the branches decides the answer.
\<close>

theorem branch_conditions_overlap_counterexample:
  "highest_price_cond cars (lower ''Highest price, most cars?'')
   \<and> most_cars_cond cars (lower ''Highest price, most cars?'')
   \<and> answer_query cars ''Highest price, most cars?'' = Inr (BestBrand (Str ''B''))
   \<and> answer_query_swapped cars ''Highest price, most cars?'' = Inr (MostCars (Str ''A''))"
  by (simp add: answer_query_def answer_query_swapped_def lower_def lower_char_def
      highest_price_cond_def most_cars_cond_def col_names_def cars_def
      highest_price_def most_cars_def groupby_agg_def getitem_def numbers_def group_keys_def
      present_def group_values_def agg_mean_def sort_desc_def index0_def value_counts_def
      uniques_def)

section \<open>Aggregated plot frames\<close>

lemma sorted_group_keys: "sorted (group_keys ks)"
  by (simp add: group_keys_def)

lemma distinct_group_keys: "distinct (group_keys ks)"
  by (simp add: group_keys_def)


lemma strict_sorted_group_keys: "sorted_wrt (<) (group_keys ks)"
  using sorted_group_keys [of ks] distinct_group_keys [of ks]
  by (simp add: strict_sorted_iff)

text \<open>
  With aggregation enabled, a value column set, and a category column that is not
  labelled \<^verbatim>\<open>value\<close>, the plot frame of a Bar/Line configuration has one row for
  each distinct category value that is not missing, in strictly ascending order of
  the category, holding the selected reduction of the value cells of that
  category's rows.
\<close>

lemma plot_frame_aggregated:
  assumes "chart_type cfg = Bar \<or> chart_type cfg = Line"
    and "use_agg cfg" and "y cfg = Some v" and "v \<noteq> []"
    and "x cfg \<noteq> ''value''"
    and "getitem df (x cfg) = Inr sx" and "getitem df v = Inr (NumSeries vs)"
  shows "plot_frame df cfg =
      Inr (map (\<lambda>k. (k, (case agg cfg of
                            Some SumAgg \<Rightarrow> agg_sum
                          | Some MeanAgg \<Rightarrow> agg_mean
                          | _ \<Rightarrow> agg_count) (group_values (cells sx) vs k)))
             (group_keys (cells sx)))"
proof -
  have "aggregated_frame f df (x cfg) v =
      Inr (map (\<lambda>k. (k, f (group_values (cells sx) vs k))) (group_keys (cells sx)))" for f
    using assms(5-7)
    by (simp add: aggregated_frame_def groupby_agg_def numbers_def reset_index_value_def)
  then show ?thesis
    using assms(1-4)
    by (simp add: plot_frame_def truthy_def split: option.split aggregation.split)
qed

lemma plot_frame_aggregated_examples:
  "plot_frame cars sum_config = Inr [(Str ''A'', Some 30), (Str ''B'', Some 30)]"
  "plot_frame cars (sum_config\<lparr>agg := Some MeanAgg\<rparr>) = Inr [(Str ''A'', Some 15), (Str ''B'', Some 30)]"
  "plot_frame cars (sum_config\<lparr>agg := Some CountAgg\<rparr>) = Inr [(Str ''A'', Some 2), (Str ''B'', Some 1)]"
  by (simp_all add: cars_def sum_config_def plot_frame_def truthy_def aggregated_frame_def
      groupby_agg_def getitem_def numbers_def group_keys_def present_def group_values_def
      agg_sum_def agg_mean_def agg_count_def reset_index_value_def)

text \<open>
  Claim C3 at a Dataset whose category column is labelled \<^verbatim>\<open>value\<close>: the grouped
  sums are computed, but \<^verbatim>\<open>reset_index(name="value")\<close> (line 157) cannot insert the
  index \<^verbatim>\<open>value\<close> beside the new column \<^verbatim>\<open>value\<close>, and no plot frame is made.
\<close>

theorem aggregation_on_value_column:
  "groupby_agg agg_sum value_prices ''value'' ''price'' = Inr [(Str ''A'', Some 30), (Str ''B'', Some 30)]
   \<and> plot_frame value_prices (sum_config\<lparr>x := ''value''\<rparr>)
       = Inl (ValueError ''cannot insert value, already exists'')"
  by (simp add: value_prices_def sum_config_def plot_frame_def truthy_def aggregated_frame_def
      groupby_agg_def getitem_def numbers_def group_keys_def present_def group_values_def
      agg_sum_def reset_index_value_def)

section \<open>The category-frequency table\<close>

lemma freq_table_sorted:
  assumes "freq_rows df \<noteq> []"
  shows "\<exists>t. freq_table df = Inr t \<and> mset t = mset (freq_rows df)
           \<and> sorted (map (\<lambda>r. (Column r, - Count r)) t)"
  using assms by (simp add: freq_table_def sort_values_column_count_def)

lemma column_freq_rows_length: "length (column_freq_rows c) \<le> 5"
  by (simp add: column_freq_rows_def)

lemma freq_table_example:
  "freq_table cars =
     Inr [\<lparr>Column = ''make'', Category = ''A'', Count = 2\<rparr>,
          \<lparr>Column = ''make'', Category = ''B'', Count = 1\<rparr>]"
  by (simp add: freq_table_def sort_values_column_count_def freq_rows_def categorical_cols_def
      cars_def column_freq_rows_def value_counts_def present_def uniques_def)

text \<open>
  Claim C9 at a Dataset without categorical columns: no row is collected, the frame
  built from the empty list has no column \<^verbatim>\<open>Column\<close>, and \<^verbatim>\<open>sort_values\<close> (line
  226) raises KeyError instead of giving an (empty) sorted table.
\<close>

theorem freq_table_without_categorical_columns:
  "categorical_cols prices_only = [] \<and> freq_rows prices_only = []
   \<and> freq_table prices_only = Inl (KeyError ''Column'')"
  by (simp add: prices_only_def categorical_cols_def freq_rows_def freq_table_def
      sort_values_column_count_def)

section \<open>The three cases of the query matcher\<close>









lemma answer_query_empty: "answer_query df [] = Inr NoOutput"
  by (simp add: answer_query_def)


end
